theory Spec2Isabelle
  imports Main "HOL-Library.Finite_Map" "HOL-Library.FSet"
begin

section \<open>Session store (src/lib/sessionStore.ts)\<close>

text \<open>
  The module keeps one \<^verbatim>\<open>Map<string, StoredSession>\<close>. A JavaScript \<^verbatim>\<open>Map\<close> is a finite
  map, so the registry is an \<open>fmap\<close>; \<^verbatim>\<open>sessions.size\<close> is the number of its keys. Every
  function takes the registry and returns it updated. \<^verbatim>\<open>Date.now()\<close> is the argument
  \<open>now\<close> (milliseconds, an integer); the random token of \<^verbatim>\<open>generateSessionId\<close> is the
  argument \<open>sessionId\<close> of \<open>createSession\<close>.
\<close>

record SessionData =
  uri :: string
  databaseName :: string
  allowedScope :: "string list"
  readOnly :: bool
  createdAt :: int
  expiresAt :: int

record StoredSession =
  data :: SessionData
  lastAccessed :: int

type_synonym session_map = "(string, StoredSession) fmap"

text \<open>
  \<^verbatim>\<open>Omit<SessionData, 'createdAt' | 'expiresAt'>\<close>, the argument of \<open>createSession\<close>.
\<close>

record NewSession =
  new_uri :: string
  new_databaseName :: string
  new_allowedScope :: "string list"
  new_readOnly :: bool

text \<open>
  \<^verbatim>\<open>Partial<Omit<SessionData, 'createdAt'>>\<close>, the argument of \<open>updateSession\<close>: every field
  but \<open>createdAt\<close>, each one optional (\<open>None\<close> is a field the object literal leaves out).
\<close>

record SessionUpdates =
  upd_uri :: "string option"
  upd_databaseName :: "string option"
  upd_allowedScope :: "string list option"
  upd_readOnly :: "bool option"
  upd_expiresAt :: "int option"

definition SESSION_TTL_MS :: int where
  "SESSION_TTL_MS = 24 * 60 * 60 * 1000"

definition CLEANUP_INTERVAL_MS :: int where
  "CLEANUP_INTERVAL_MS = 5 * 60 * 1000"

definition createSession ::
  "string \<Rightarrow> int \<Rightarrow> NewSession \<Rightarrow> session_map \<Rightarrow> string \<times> session_map" where
  "createSession sessionId now d sessions =
     (let sessionData =
        \<lparr>uri = new_uri d, databaseName = new_databaseName d,
         allowedScope = new_allowedScope d, readOnly = new_readOnly d,
         createdAt = now, expiresAt = now + SESSION_TTL_MS\<rparr>
      in (sessionId, fmupd sessionId \<lparr>data = sessionData, lastAccessed = now\<rparr> sessions))"

text \<open>
  \<^verbatim>\<open>getSession\<close>: \<open>None\<close> is the source's \<^verbatim>\<open>null\<close>. The expiry test is the source's
  \<^verbatim>\<open>now > session.data.expiresAt\<close>.
\<close>

definition getSession :: "int \<Rightarrow> string \<Rightarrow> session_map \<Rightarrow> SessionData option \<times> session_map" where
  "getSession now sessionId sessions =
     (case fmlookup sessions sessionId of
        None \<Rightarrow> (None, sessions)
      | Some session \<Rightarrow>
          if now > expiresAt (data session) then (None, fmdrop sessionId sessions)
          else (Some (data session), fmupd sessionId (session\<lparr>lastAccessed := now\<rparr>) sessions))"

text \<open>
  The object spread \<^verbatim>\<open>{ ...session.data, ...updates }\<close>: a field present in \<open>updates\<close>
  replaces the stored one, every other field is kept.
\<close>

definition spread :: "SessionData \<Rightarrow> SessionUpdates \<Rightarrow> SessionData" where
  "spread d u =
     \<lparr>uri = (case upd_uri u of None \<Rightarrow> uri d | Some v \<Rightarrow> v),
      databaseName = (case upd_databaseName u of None \<Rightarrow> databaseName d | Some v \<Rightarrow> v),
      allowedScope = (case upd_allowedScope u of None \<Rightarrow> allowedScope d | Some v \<Rightarrow> v),
      readOnly = (case upd_readOnly u of None \<Rightarrow> readOnly d | Some v \<Rightarrow> v),
      createdAt = createdAt d,
      expiresAt = (case upd_expiresAt u of None \<Rightarrow> expiresAt d | Some v \<Rightarrow> v)\<rparr>"

definition updateSession ::
  "int \<Rightarrow> string \<Rightarrow> SessionUpdates \<Rightarrow> session_map \<Rightarrow> bool \<times> session_map" where
  "updateSession now sessionId updates sessions =
     (case fmlookup sessions sessionId of
        None \<Rightarrow> (False, sessions)
      | Some session \<Rightarrow>
          if now > expiresAt (data session) then (False, fmdrop sessionId sessions)
          else (True,
                fmupd sessionId \<lparr>data = spread (data session) updates, lastAccessed = now\<rparr>
                  sessions))"

text \<open>\<^verbatim>\<open>Map.prototype.delete\<close> returns whether the key was present.\<close>

definition destroySession :: "string \<Rightarrow> session_map \<Rightarrow> bool \<times> session_map" where
  "destroySession sessionId sessions =
     (sessionId |\<in>| fmdom sessions, fmdrop sessionId sessions)"

definition getActiveSessionCount :: "session_map \<Rightarrow> nat" where
  "getActiveSessionCount sessions = fcard (fmdom sessions)"

definition destroyAllSessions :: "session_map \<Rightarrow> session_map" where
  "destroyAllSessions sessions = fmempty"

text \<open>
  The only caller of \<open>updateSession\<close>, the handler of \<^verbatim>\<open>POST /switch-database\<close> in
  src/routes/connection.ts, passes the object literal \<^verbatim>\<open>{ databaseName }\<close>.
\<close>

definition switchDatabaseUpdates :: "string \<Rightarrow> SessionUpdates" where
  "switchDatabaseUpdates name =
     \<lparr>upd_uri = None, upd_databaseName = Some name, upd_allowedScope = None,
      upd_readOnly = None, upd_expiresAt = None\<rparr>"

section \<open>Payload sanitizer (src/utils/sanitize.ts)\<close>

text \<open>
  A payload is a JavaScript value as \<^verbatim>\<open>JSON.parse\<close> and the body parser produce it, plus
  \<^verbatim>\<open>undefined\<close>. An object is the list of its own properties in the order of
  \<^verbatim>\<open>Object.keys\<close>, each key with the value \<^verbatim>\<open>obj[key]\<close>. The traversal never looks at a
  number, so numbers are integers here.
\<close>

datatype json =
    JNull
  | JUndefined
  | JBool bool
  | JNumber int
  | JString string
  | JArray "json list"
  | JObject "(string \<times> json) list"

fun typeof :: "json \<Rightarrow> string" where
  "typeof JNull = ''object''"
| "typeof JUndefined = ''undefined''"
| "typeof (JBool b) = ''boolean''"
| "typeof (JNumber n) = ''number''"
| "typeof (JString s) = ''string''"
| "typeof (JArray xs) = ''object''"
| "typeof (JObject kvs) = ''object''"

fun isArray :: "json \<Rightarrow> bool" where
  "isArray (JArray xs) = True"
| "isArray v = False"

definition startsWith :: "string \<Rightarrow> string \<Rightarrow> bool" where
  "startsWith s p = (take (length p) s = p)"

definition digit_char :: "nat \<Rightarrow> char" where
  "digit_char d = ''0123456789'' ! d"

text \<open>The decimal rendering of an array index in the template \<^verbatim>\<open>${i}\<close>.\<close>

fun string_of_nat :: "nat \<Rightarrow> string" where
  "string_of_nat n =
     (if n < 10 then [digit_char n] else string_of_nat (n div 10) @ [digit_char (n mod 10)])"

declare string_of_nat.simps [simp del]

definition BLOCKED_OPERATORS :: "string list" where
  "BLOCKED_OPERATORS = [''$where'', ''$function'', ''$accumulator'', ''$expr'', ''$jsonSchema'']"

definition BLOCKED_OPERATOR_PREFIXES :: "string list" where
  "BLOCKED_OPERATOR_PREFIXES = [''$$'']"

definition dq :: string where
  "dq = [CHR 0x22]"

text \<open>\<^verbatim>\<open>path || 'root'\<close>: the empty string is falsy.\<close>

definition pathOrRoot :: "string \<Rightarrow> string" where
  "pathOrRoot path = (if path = [] then ''root'' else path)"

text \<open>The two messages of the traversal; \<open>dq\<close> is the double quote.\<close>

definition blockedOperatorMessage :: "string \<Rightarrow> string \<Rightarrow> string" where
  "blockedOperatorMessage key path =
     ''Blocked operator '' @ dq @ key @ dq @ '' found at '' @ pathOrRoot path"

definition blockedPrefixMessage :: "string \<Rightarrow> string \<Rightarrow> string \<Rightarrow> string" where
  "blockedPrefixMessage prefix key path =
     ''Blocked operator prefix '' @ dq @ prefix @ dq @ '' found in '' @ dq @ key @ dq @
     '' at '' @ pathOrRoot path"

text \<open>The path handed to an array element, \<^verbatim>\<open>`${path}[${i}]`\<close>.\<close>

definition indexPath :: "string \<Rightarrow> nat \<Rightarrow> string" where
  "indexPath path i = path @ ''['' @ string_of_nat i @ '']''"

text \<open>The path handed to a property value, \<^verbatim>\<open>path ? `${path}.${key}` : key\<close>.\<close>

definition keyPath :: "string \<Rightarrow> string \<Rightarrow> string" where
  "keyPath path key = (if path = [] then key else path @ ''.'' @ key)"

text \<open>
  \<^verbatim>\<open>findBlockedOperator\<close>. \<open>findInArray\<close> is its loop over the elements of an array from
  index \<open>i\<close> on, \<open>findInObject\<close> its loop over the keys of an object. \<open>None\<close> is
  \<^verbatim>\<open>null\<close>. The tests \<^verbatim>\<open>if (result) return result\<close> are tests for \<open>Some\<close>: both messages
  are non-empty strings, hence truthy.
\<close>

fun findBlockedOperator :: "json \<Rightarrow> string \<Rightarrow> string option"
  and findInArray :: "json list \<Rightarrow> nat \<Rightarrow> string \<Rightarrow> string option"
  and findInObject :: "(string \<times> json) list \<Rightarrow> string \<Rightarrow> string option" where
  "findBlockedOperator JNull path = None"
| "findBlockedOperator JUndefined path = None"
| "findBlockedOperator (JArray xs) path = findInArray xs 0 path"
| "findBlockedOperator (JObject kvs) path = findInObject kvs path"
| "findBlockedOperator (JBool b) path = None"
| "findBlockedOperator (JNumber n) path = None"
| "findBlockedOperator (JString s) path = None"
| "findInArray [] i path = None"
| "findInArray (x # xs) i path =
     (case findBlockedOperator x (indexPath path i) of
        Some result \<Rightarrow> Some result
      | None \<Rightarrow> findInArray xs (Suc i) path)"
| "findInObject [] path = None"
| "findInObject ((key, v) # kvs) path =
     (if key \<in> set BLOCKED_OPERATORS then Some (blockedOperatorMessage key path)
      else case find (startsWith key) BLOCKED_OPERATOR_PREFIXES of
        Some prefix \<Rightarrow> Some (blockedPrefixMessage prefix key path)
      | None \<Rightarrow>
          (case findBlockedOperator v (keyPath path key) of
             Some result \<Rightarrow> Some result
           | None \<Rightarrow> findInObject kvs path))"

text \<open>
  The results \<^verbatim>\<open>{ valid: true, filter }\<close> and \<^verbatim>\<open>{ valid: true, update }\<close> are \<open>Valid\<close> with the
  payload, \<^verbatim>\<open>{ valid: false, error }\<close> is \<open>Invalid\<close> with the message.
\<close>

datatype sanitize_result = Valid json | Invalid string

definition sanitizeFilter :: "json \<Rightarrow> sanitize_result" where
  "sanitizeFilter flt =
     (if flt = JNull \<or> flt = JUndefined then Valid (JObject [])
      else if typeof flt \<noteq> ''object'' \<or> isArray flt then Invalid ''Filter must be an object''
      else case findBlockedOperator flt [] of
        Some blockedOperator \<Rightarrow> Invalid blockedOperator
      | None \<Rightarrow> Valid flt)"

definition sanitizeUpdate :: "json \<Rightarrow> sanitize_result" where
  "sanitizeUpdate update =
     (if update = JNull \<or> update = JUndefined then Invalid ''Update object is required''
      else if typeof update \<noteq> ''object'' \<or> isArray update then Invalid ''Update must be an object''
      else case findBlockedOperator update [] of
        Some blockedOperator \<Rightarrow> Invalid blockedOperator
      | None \<Rightarrow> Valid update)"

section \<open>Occurrences of keys in a payload\<close>

text \<open>
  What the claims about the sanitizer speak of. A position in a payload is a list of
  segments, a property name or an array index. \<open>keysAt v\<close> lists every key of every object
  nested in \<open>v\<close>, at any depth and inside arrays, each with the position of the object that
  holds it, in depth-first order: a key comes before the keys inside its value, and those
  before the next key of the same object.
\<close>

datatype segment = Key string | Index nat

fun keysAt :: "json \<Rightarrow> (segment list \<times> string) list"
  and keysAtArray :: "json list \<Rightarrow> nat \<Rightarrow> (segment list \<times> string) list"
  and keysAtObject :: "(string \<times> json) list \<Rightarrow> (segment list \<times> string) list" where
  "keysAt JNull = []"
| "keysAt JUndefined = []"
| "keysAt (JBool b) = []"
| "keysAt (JNumber n) = []"
| "keysAt (JString s) = []"
| "keysAt (JArray xs) = keysAtArray xs 0"
| "keysAt (JObject kvs) = keysAtObject kvs"
| "keysAtArray [] i = []"
| "keysAtArray (x # xs) i =
     map (\<lambda>(p, k). (Index i # p, k)) (keysAt x) @ keysAtArray xs (Suc i)"
| "keysAtObject [] = []"
| "keysAtObject ((key, v) # kvs) =
     ([], key) # map (\<lambda>(p, k). (Key key # p, k)) (keysAt v) @ keysAtObject kvs"

text \<open>
  A denylisted operator, and a key with the system-variable prefix, in the claims' words.
\<close>

definition denylisted :: "string \<Rightarrow> bool" where
  "denylisted key =
     (key = ''$where'' \<or> key = ''$function'' \<or> key = ''$accumulator'' \<or> key = ''$expr'' \<or>
      key = ''$jsonSchema'')"

definition systemVariable :: "string \<Rightarrow> bool" where
  "systemVariable key = (take 2 key = ''$$'')"

definition offending :: "segment list \<times> string \<Rightarrow> bool" where
  "offending occ = (denylisted (snd occ) \<or> systemVariable (snd occ))"

definition containsBlocked :: "json \<Rightarrow> bool" where
  "containsBlocked v = list_ex offending (keysAt v)"





definition quoted :: "string \<Rightarrow> string" where
  "quoted s = [CHR 0x22] @ s @ [CHR 0x22]"

definition reportAt :: "string \<Rightarrow> string \<Rightarrow> string" where
  "reportAt place key =
     (if denylisted key then ''Blocked operator '' @ quoted key @ '' found at '' @ place
      else ''Blocked operator prefix '' @ quoted ''$$'' @ '' found in '' @ quoted key @
           '' at '' @ place)"



section \<open>Egress validator (src/utils/ssrf.ts)\<close>

text \<open>
  \<^verbatim>\<open>new URL(uri)\<close> is Node's WHATWG parser, not code of the repository: it is the parameter
  \<open>URL\<close>, which returns the fields the validator reads, or \<open>None\<close> where the constructor
  throws. The validator is a synchronous function of the URI alone.
\<close>

record url =
  protocol :: string
  hostname :: string

text \<open>
  \<^verbatim>\<open>String.prototype.toLowerCase\<close> on a host name: the parser leaves only ASCII in
  \<^verbatim>\<open>url.hostname\<close>, where lowering moves \<open>A\<close> to \<open>Z\<close> by 32.
\<close>

definition toLowerChar :: "char \<Rightarrow> char" where
  "toLowerChar c =
     (let n = (of_char c :: nat) in if 65 \<le> n \<and> n \<le> 90 then char_of (n + 32) else c)"

definition toLowerCase :: "string \<Rightarrow> string" where
  "toLowerCase s = map toLowerChar s"

text \<open>
  The regular expressions of \<^verbatim>\<open>BLOCKED_IP_PATTERNS\<close>, each as the test \<^verbatim>\<open>pattern.test\<close>
  computes, in the order of the source. An anchored pattern with no \<^verbatim>\<open>$\<close> is a prefix test;
  \<^verbatim>\<open>(1[6-9]|2[0-9]|3[01])\<close> is one of the sixteen numerals 16 to 31; the flag \<^verbatim>\<open>i\<close> compares
  after lowering; \<^verbatim>\<open>^...$\<close> without the flag \<^verbatim>\<open>m\<close> matches the whole string only.
\<close>

definition classB :: "string list" where
  "classB = [''16'', ''17'', ''18'', ''19'', ''20'', ''21'', ''22'', ''23'', ''24'', ''25'',
             ''26'', ''27'', ''28'', ''29'', ''30'', ''31'']"

definition BLOCKED_IP_PATTERNS :: "(string \<Rightarrow> bool) list" where
  "BLOCKED_IP_PATTERNS =
     [\<lambda>h. startsWith h ''127.'',
      \<lambda>h. startsWith h ''10.'',
      \<lambda>h. list_ex (\<lambda>d. startsWith h (''172.'' @ d @ ''.'')) classB,
      \<lambda>h. startsWith h ''192.168.'',
      \<lambda>h. startsWith h ''169.254.'',
      \<lambda>h. startsWith h ''0.'',
      \<lambda>h. startsWith (toLowerCase h) ''fc00:'',
      \<lambda>h. startsWith (toLowerCase h) ''fe80:'',
      \<lambda>h. h = ''::1'',
      \<lambda>h. toLowerCase h = ''localhost'']"

definition BLOCKED_HOSTNAMES :: "string list" where
  "BLOCKED_HOSTNAMES =
     [''localhost'', ''localhost.localdomain'', ''127.0.0.1'', ''::1'', ''0.0.0.0'',
      ''metadata.google.internal'', ''169.254.169.254'']"

datatype ssrf_result = Allowed | Rejected string

definition validateUriForSsrf :: "(string \<Rightarrow> url option) \<Rightarrow> string \<Rightarrow> ssrf_result" where
  "validateUriForSsrf URL candidate =
     (case URL candidate of
        None \<Rightarrow> Rejected ''Invalid URI format''
      | Some u \<Rightarrow>
          (let host = toLowerCase (hostname u) in
           if host \<in> set BLOCKED_HOSTNAMES
           then Rejected ''Connection to internal hosts is not allowed''
           else if list_ex (\<lambda>pattern. pattern host) BLOCKED_IP_PATTERNS
           then Rejected ''Connection to private networks is not allowed''
           else if protocol u \<notin> set [''mongodb:'', ''mongodb+srv:'']
           then Rejected ''Only MongoDB protocols are allowed''
           else Allowed))"

section \<open>Connection pool (src/lib/mongodb.ts)\<close>

text \<open>
  The pool is a \<^verbatim>\<open>Map\<close> from the hash of a credential string to an entry object. The
  entries are objects that calls hold on to across an \<^verbatim>\<open>await\<close> and mutate, so they live in
  a store: \<open>objects\<close> maps an address to the entry there, \<open>allocs\<close> is the next free
  address, and \<open>pool\<close> maps a hash to the address of its entry. A \<^verbatim>\<open>MongoClient\<close> is known
  by its identity, the number of clients constructed before it, which \<open>dials\<close> counts;
  \<open>closed\<close> records the clients on which \<^verbatim>\<open>close()\<close> was called.
  \<^verbatim>\<open>createHash('sha256')\<close> is Node's, not the repository's: the hash is the parameter
  \<open>hashUri\<close>.
\<close>

record ConnectionPool =
  conn_uri :: string
  client :: nat
  db :: "string option"
  lastUsed :: int

record pool_state =
  objects :: "nat \<Rightarrow> ConnectionPool"
  allocs :: nat
  pool :: "(string, nat) fmap"
  dials :: nat
  closed :: "nat list"

datatype 'a outcome = Returned 'a | Thrown

definition CONNECTION_TTL :: int where
  "CONNECTION_TTL = 5 * 60 * 1000"

text \<open>
  \<^verbatim>\<open>getConnectionFromSession\<close> is an async function: it runs in segments, each from the call
  or from a settled \<^verbatim>\<open>await\<close> to the next \<^verbatim>\<open>await\<close> or to the return, and segments of other
  calls may run in between. \<open>point\<close> is where a call stands: about to start; awaiting the
  ping on the entry at an address; awaiting the dial of a client that is to replace the
  client of that entry; awaiting \<^verbatim>\<open>close()\<close> in \<open>cleanupConnection\<close>; back from
  \<open>cleanupConnection\<close>; awaiting the dial of a client for a new entry; finished. An
  \<open>event\<close> is what a segment reads from outside: the clock, and whether the operation
  it awaited succeeded.
\<close>

datatype point =
    AtStart
  | AwaitPing nat
  | AwaitRedial nat nat
  | AwaitClose
  | AfterCleanup
  | AwaitDial nat
  | Finished "nat option outcome"

record event =
  clock :: int
  settled :: bool

text \<open>
  The synchronous start of \<^verbatim>\<open>createConnection\<close>: a client is constructed and its
  \<^verbatim>\<open>connect()\<close> begun.
\<close>

definition createConnection :: "pool_state \<Rightarrow> nat \<times> pool_state" where
  "createConnection st = (dials st, st\<lparr>dials := Suc (dials st)\<rparr>)"

text \<open>
  One segment of \<^verbatim>\<open>getConnectionFromSession\<close>. A failed redial after a failed ping is not
  caught: the call throws. The \<^verbatim>\<open>pool.delete\<close> of \<open>cleanupConnection\<close> runs after its
  \<^verbatim>\<open>await\<close>, whatever \<^verbatim>\<open>close()\<close> did.
\<close>

definition getConnectionFromSession ::
  "(string \<Rightarrow> string) \<Rightarrow> event \<Rightarrow> SessionData \<Rightarrow> point \<Rightarrow> pool_state \<Rightarrow>
   point \<times> pool_state" where
  "getConnectionFromSession hashUri ev session pt st =
     (let uriHash = hashUri (uri session) in
      case pt of
        AtStart \<Rightarrow>
          (case fmlookup (pool st) uriHash of
             Some existing \<Rightarrow>
               if clock ev - lastUsed (objects st existing) < CONNECTION_TTL
               then (AwaitPing existing,
                     st\<lparr>objects := (objects st)
                          (existing := (objects st existing)\<lparr>lastUsed := clock ev\<rparr>)\<rparr>)
               else (AwaitClose, st\<lparr>closed := client (objects st existing) # closed st\<rparr>)
           | None \<Rightarrow>
               (case createConnection st of (c, st') \<Rightarrow> (AwaitDial c, st')))
      | AwaitPing existing \<Rightarrow>
          if settled ev
          then (Finished (Returned (Some (client (objects st existing)))), st)
          else (case createConnection st of (c, st') \<Rightarrow> (AwaitRedial existing c, st'))
      | AwaitRedial existing c \<Rightarrow>
          if settled ev
          then (Finished (Returned (Some c)),
                st\<lparr>objects := (objects st)(existing := (objects st existing)\<lparr>client := c\<rparr>)\<rparr>)
          else (Finished Thrown, st)
      | AwaitClose \<Rightarrow> (AfterCleanup, st\<lparr>pool := fmdrop uriHash (pool st)\<rparr>)
      | AfterCleanup \<Rightarrow> (case createConnection st of (c, st') \<Rightarrow> (AwaitDial c, st'))
      | AwaitDial c \<Rightarrow>
          if settled ev
          then (Finished (Returned (Some c)),
                st\<lparr>objects := (objects st)
                       (allocs st := \<lparr>conn_uri = uri session, client = c,
                                     db = Some (databaseName session), lastUsed = clock ev\<rparr>),
                   allocs := Suc (allocs st),
                   pool := fmupd uriHash (allocs st) (pool st)\<rparr>)
          else (Finished (Returned None), st)
      | Finished r \<Rightarrow> (Finished r, st))"

definition getActiveConnectionCount :: "pool_state \<Rightarrow> nat" where
  "getActiveConnectionCount st = fcard (fmdom (pool st))"

text \<open>A call that runs alone: its segments one after the other, one event each.\<close>

fun runCall ::
  "(string \<Rightarrow> string) \<Rightarrow> event list \<Rightarrow> SessionData \<Rightarrow> point \<Rightarrow> pool_state \<Rightarrow>
   point \<times> pool_state" where
  "runCall hashUri [] session pt st = (pt, st)"
| "runCall hashUri (ev # evs) session pt st =
     (case getConnectionFromSession hashUri ev session pt st of
        (pt', st') \<Rightarrow> runCall hashUri evs session pt' st')"

text \<open>
  Calls in flight together. The server holds the calls made so far, each with its session
  and its point. An action either makes a new call, whose first segment runs at once, or
  lets the awaited operation of call number \<open>i\<close> settle, which runs its next segment.
\<close>

datatype action = Call SessionData event | Settle nat event

type_synonym server = "(SessionData \<times> point) list \<times> pool_state"

fun perform :: "(string \<Rightarrow> string) \<Rightarrow> action \<Rightarrow> server \<Rightarrow> server" where
  "perform hashUri (Call session ev) (calls, st) =
     (case getConnectionFromSession hashUri ev session AtStart st of
        (pt', st') \<Rightarrow> (calls @ [(session, pt')], st'))"
| "perform hashUri (Settle i ev) (calls, st) =
     (if i < length calls
      then (case calls ! i of
              (session, pt) \<Rightarrow>
                (case getConnectionFromSession hashUri ev session pt st of
                   (pt', st') \<Rightarrow> (calls[i := (session, pt')], st')))
      else (calls, st))"


text \<open>The entry a hash is mapped to, if any: the object at the address the pool holds.\<close>

definition entryAt :: "pool_state \<Rightarrow> string \<Rightarrow> ConnectionPool option" where
  "entryAt st k = map_option (objects st) (fmlookup (pool st) k)"






section \<open>Responses to a failed database operation (src/routes)\<close>

text \<open>
  Every route handler but \<^verbatim>\<open>/connect\<close> first takes the pooled client with
  \<^verbatim>\<open>await getConnectionFromSession(req.session)\<close>, outside any \<^verbatim>\<open>try\<close>, answers 401 when
  that is \<^verbatim>\<open>null\<close>, and then makes its driver calls inside one \<^verbatim>\<open>try\<close>. \<open>catchResponse\<close>
  is the \<^verbatim>\<open>catch\<close> block of each handler, as a function of the value thrown inside the
  \<^verbatim>\<open>try\<close>. A response is its status and its body: \<^verbatim>\<open>{ success: false, error }\<close> is
  \<open>ErrorBody\<close>, \<^verbatim>\<open>{ success: true, data: { ..., message } }\<close>, whose other fields are
  constants or request parameters, is \<open>DataBody\<close> with the message, and
  \<^verbatim>\<open>{ success: false }\<close> with no \<^verbatim>\<open>error\<close> is \<open>NoText\<close>.
\<close>

datatype thrown = Error string | NonError

datatype route =
    ServerStats | Schema | Export | GetIndexes | CreateIndex | DropIndex | Aggregate
  | Import | GetValidation | SetValidation | SlowQueries | Profiling | Opcounters
  | Databases | Collections | CollectionStats
  | GetDocuments | Template | InsertDocument | UpdateDocument | DeleteDocument | Bulk
  | Connect

datatype body = ErrorBody string | DataBody string | NoText

record response =
  status :: nat
  body :: body

text \<open>\<^verbatim>\<open>String.prototype.includes\<close>\<close>

fun includesStr :: "string \<Rightarrow> string \<Rightarrow> bool" where
  "includesStr [] sub = (sub = [])"
| "includesStr (c # cs) sub = (startsWith (c # cs) sub \<or> includesStr cs sub)"

text \<open>\<^verbatim>\<open>error instanceof Error ? error.message : fallback\<close>\<close>

fun messageOr :: "string \<Rightarrow> thrown \<Rightarrow> string" where
  "messageOr fallback (Error m) = m"
| "messageOr fallback NonError = fallback"

text \<open>
  \<^verbatim>\<open>error instanceof Error && (error.message.includes('not authorized') ||
  error.message.includes('auth failed'))\<close>
\<close>

fun authFailure :: "thrown \<Rightarrow> bool" where
  "authFailure (Error m) = (includesStr m ''not authorized'' \<or> includesStr m ''auth failed'')"
| "authFailure NonError = False"

definition failed :: "nat \<Rightarrow> string \<Rightarrow> response" where
  "failed code msg = \<lparr>status = code, body = ErrorBody msg\<rparr>"

fun catchResponse :: "route \<Rightarrow> thrown \<Rightarrow> response" where
  "catchResponse ServerStats e =
     (let errMsg = messageOr ''Unknown error'' e in
      if includesStr errMsg ''not authorized'' \<or> includesStr errMsg ''command not found'' \<or>
         includesStr errMsg ''CMD_NOT_ALLOWED''
      then \<lparr>status = 200, body = DataBody
        ''Server stats are not available on the Free Tier (Shared Cluster). Upgrade to a dedicated cluster to view these metrics.''\<rparr>
      else failed 500
        ''Failed to get server stats. You may be on a Free Tier cluster which restricts this access.'')"
| "catchResponse Schema e = failed 500 ''Failed to analyze schema''"
| "catchResponse Export e = failed 500 ''Failed to export data''"
| "catchResponse GetIndexes e = failed 500 ''Failed to get indexes''"
| "catchResponse CreateIndex e = failed 500 (messageOr ''Failed to create index'' e)"
| "catchResponse DropIndex e = failed 500 (messageOr ''Failed to drop index'' e)"
| "catchResponse Aggregate e = failed 400 (messageOr ''Aggregation failed'' e)"
| "catchResponse Import e = failed 500 (messageOr ''Import failed'' e)"
| "catchResponse GetValidation e = failed 500 ''Failed to get validation rules''"
| "catchResponse SetValidation e = failed 500 (messageOr ''Failed to update validation'' e)"
| "catchResponse SlowQueries e =
     (let errMsg = messageOr ''Unknown error'' e in
      if includesStr errMsg ''CMD_NOT_ALLOWED'' \<or> includesStr errMsg ''not allowed''
      then \<lparr>status = 200, body = DataBody
        ''Restricted: You cannot access Profiling on Free Tier (Shared Cluster).''\<rparr>
      else failed 500 ''Failed to get slow queries. Profiling may not be enabled.'')"
| "catchResponse Profiling e =
     (let errMsg = messageOr ''Unknown error'' e in
      if includesStr errMsg ''CMD_NOT_ALLOWED'' \<or> includesStr errMsg ''not allowed''
      then failed 200 ''Restricted: You cannot access Profiling on Free Tier (Shared Cluster).''
      else failed 500 ''Failed to set profiling level'')"
| "catchResponse Opcounters e = failed 500 ''Failed to get opcounters''"
| "catchResponse Databases e = failed 500 ''Failed to list databases''"
| "catchResponse Collections e = failed 500 ''Failed to list collections''"
| "catchResponse CollectionStats e =
     (if authFailure e
      then \<lparr>status = 200, body = DataBody ''Access restricted: Stats not available''\<rparr>
      else failed 500 ''Failed to get collection stats'')"
| "catchResponse GetDocuments e =
     (if authFailure e
      then \<lparr>status = 200, body = DataBody ''Access restricted: Documents not visible''\<rparr>
      else failed 500 ''Failed to fetch documents'')"
| "catchResponse Template e = failed 500 ''Failed to generate template''"
| "catchResponse InsertDocument e = failed 500 ''Failed to insert document''"
| "catchResponse UpdateDocument e = failed 500 ''Failed to update document''"
| "catchResponse DeleteDocument e = failed 500 ''Failed to delete document''"
| "catchResponse Bulk e = failed 500 ''Failed to perform bulk operation''"
| "catchResponse Connect e =
     failed 401 ''Failed to connect to MongoDB. Please check your URI and network connection.''"




text \<open>
  Where a handler's database work can fail: \<^verbatim>\<open>getConnectionFromSession\<close> throws (its redial
  after a failed ping is not caught), it returns \<^verbatim>\<open>null\<close>, or a driver call inside the
  \<^verbatim>\<open>try\<close> throws. The handler then either sends a response or, the \<^verbatim>\<open>await\<close> standing
  outside its \<^verbatim>\<open>try\<close>, lets the value thrown escape as the rejection of its promise.
  \<open>None\<close>: the failure cannot occur, \<^verbatim>\<open>/connect\<close> taking no pooled client.
\<close>

datatype failure = AcquireThrew thrown | AcquireNull | OperationThrew thrown

datatype handled = Responded response | Escaped thrown

fun usesPool :: "route \<Rightarrow> bool" where
  "usesPool Connect = False"
| "usesPool r = True"

text \<open>The text of the 401 sent when the pooled client is \<^verbatim>\<open>null\<close>.\<close>

fun notConnectedText :: "route \<Rightarrow> string" where
  "notConnectedText Aggregate = ''Not connected''"
| "notConnectedText Import = ''Not connected''"
| "notConnectedText GetValidation = ''Not connected''"
| "notConnectedText SetValidation = ''Not connected''"
| "notConnectedText SlowQueries = ''Not connected''"
| "notConnectedText Profiling = ''Not connected''"
| "notConnectedText Opcounters = ''Not connected''"
| "notConnectedText r = ''Failed to connect to database''"

fun handlerOnFailure :: "route \<Rightarrow> failure \<Rightarrow> handled option" where
  "handlerOnFailure r (OperationThrew e) = Some (Responded (catchResponse r e))"
| "handlerOnFailure r AcquireNull =
     (if usesPool r then Some (Responded (failed 401 (notConnectedText r))) else None)"
| "handlerOnFailure r (AcquireThrew e) = (if usesPool r then Some (Escaped e) else None)"



section \<open>Example values\<close>

text \<open>
  A registry holding one session under the token \<open>tok\<close>, created at time 0, with a given
  read-only flag and expiry.
\<close>

definition exampleStored :: "bool \<Rightarrow> int \<Rightarrow> StoredSession" where
  "exampleStored ro e =
     \<lparr>data = \<lparr>uri = ''mongodb://db.example.com/app'', databaseName = ''app'',
              allowedScope = [''*''], readOnly = ro, createdAt = 0, expiresAt = e\<rparr>,
      lastAccessed = 0\<rparr>"

definition exampleSessions :: "bool \<Rightarrow> int \<Rightarrow> session_map" where
  "exampleSessions ro e = fmupd ''tok'' (exampleStored ro e) fmempty"

text \<open>The update \<^verbatim>\<open>{ readOnly: false, expiresAt: 9999999999999 }\<close>.\<close>

definition exampleOverwrite :: SessionUpdates where
  "exampleOverwrite =
     \<lparr>upd_uri = None, upd_databaseName = None, upd_allowedScope = None,
      upd_readOnly = Some False, upd_expiresAt = Some 9999999999999\<rparr>"




definition cleanPayload :: json where
  "cleanPayload =
     JObject [(''age'', JObject [(''$gt'', JNumber 3)]), (''tags'', JArray [JString ''a''])]"

text \<open>
  Sanitizing again what a sanitizer returned: \<^verbatim>\<open>sanitize(sanitize(x))\<close>, where the second call
  takes the payload of a valid result and a rejection stays a rejection.
\<close>

fun thenSanitize :: "(json \<Rightarrow> sanitize_result) \<Rightarrow> sanitize_result \<Rightarrow> sanitize_result" where
  "thenSanitize f (Valid y) = f y"
| "thenSanitize f (Invalid e) = Invalid e"

text \<open>
  The URL constructor as far as one run needs it: at the URI \<open>candidate\<close> it returns the
  given \<^verbatim>\<open>protocol\<close> and \<^verbatim>\<open>hostname\<close>.
\<close>

definition parsesTo :: "string \<Rightarrow> string \<Rightarrow> string \<Rightarrow> string \<Rightarrow> url option" where
  "parsesTo candidate proto host s =
     (if s = candidate then Some \<lparr>protocol = proto, hostname = host\<rparr> else None)"




section \<open>Properties of the session store\<close>

lemma fcard_drop_present:
  "fmlookup m k = Some v \<Longrightarrow> Suc (fcard (fmdom m |-| {|k|})) = fcard (fmdom m)"
  by (rule fcard_Suc_fminus1) (simp add: fmdomI)

text \<open>
  Claim C3, as the code has it. For a stored token, \<open>getSession\<close> returns the record, and
  \<open>updateSession\<close> succeeds, exactly while \<open>now \<le> expiresAt\<close>: the test of both is
  \<^verbatim>\<open>now > expiresAt\<close>, so the record is still live at the instant \<open>expiresAt\<close> itself.
  Strictly after \<open>expiresAt\<close> both report not-found, the record is gone from the registry
  after the \<open>getSession\<close>, and the registry size has gone down by one.
\<close>

theorem session_retrievable_until_expiry:
  assumes "fmlookup sessions t = Some s"
  shows "(fst (getSession now t sessions) = Some (data s)) = (now \<le> expiresAt (data s)) \<and>
         (fst (updateSession now t u sessions) = True) = (now \<le> expiresAt (data s)) \<and>
         (expiresAt (data s) < now \<longrightarrow>
            fst (getSession now t sessions) = None \<and>
            fst (updateSession now t u sessions) = False \<and>
            fmlookup (snd (getSession now t sessions)) t = None \<and>
            Suc (getActiveSessionCount (snd (getSession now t sessions))) =
              getActiveSessionCount sessions)"
  using assms
  by (auto simp: getSession_def updateSession_def getActiveSessionCount_def fcard_drop_present)

text \<open>
  The statement at a registry of one session expiring at 100: found at time 100, not found
  at time 101, after which the registry is empty.
\<close>

theorem session_retrievable_until_expiry_witness:
  "fst (getSession 100 ''tok'' (exampleSessions False 100)) = Some (data (exampleStored False 100)) \<and>
   fst (getSession 101 ''tok'' (exampleSessions False 100)) = None \<and>
   fst (updateSession 101 ''tok'' (switchDatabaseUpdates ''logs'') (exampleSessions False 100)) = False \<and>
   getActiveSessionCount (exampleSessions False 100) = 1 \<and>
   getActiveSessionCount (snd (getSession 101 ''tok'' (exampleSessions False 100))) = 0"
proof -
  have l: "fmlookup (exampleSessions False 100) ''tok'' = Some (exampleStored False 100)"
    by (simp add: exampleSessions_def)
  have e: "expiresAt (data (exampleStored False 100)) = 100"
    by (simp add: exampleStored_def)
  have c: "getActiveSessionCount (exampleSessions False 100) = 1"
    by (simp add: getActiveSessionCount_def exampleSessions_def fcard_finsert_if)
  show ?thesis
    using session_retrievable_until_expiry [OF l, of 100 "switchDatabaseUpdates ''logs''"]
      session_retrievable_until_expiry [OF l, of 101 "switchDatabaseUpdates ''logs''"] e c
    by simp
qed

text \<open>
  Claim C3 as written fails at \<open>now = expiresAt\<close>: there \<open>getSession\<close> still returns the
  record and \<open>updateSession\<close> still succeeds.
\<close>

theorem session_live_at_expiry_instant:
  "fst (getSession 100 ''tok'' (exampleSessions False 100)) = Some (data (exampleStored False 100)) \<and>
   fst (updateSession 100 ''tok'' (switchDatabaseUpdates ''logs'') (exampleSessions False 100)) = True"
  by (simp add: getSession_def updateSession_def exampleSessions_def exampleStored_def)

text \<open>
  Claim C7, as the code has it. On a token whose record is present but expired
  (\<open>expiresAt < now\<close>), \<open>getSession\<close> and \<open>updateSession\<close> answer as they do on a registry
  without the token: not-found. \<open>destroySession\<close> has no expiry test: it answers
  \<^verbatim>\<open>true\<close> for the expired record and \<^verbatim>\<open>false\<close> for the absent one.
\<close>

theorem expired_like_absent_for_get_and_update:
  assumes "fmlookup sessions t = Some s" and "expiresAt (data s) < now"
    and "fmlookup others t = None"
  shows "fst (getSession now t sessions) = fst (getSession now t others) \<and>
         fst (getSession now t sessions) = None \<and>
         fst (updateSession now t u sessions) = fst (updateSession now t u others) \<and>
         fst (updateSession now t u sessions) = False \<and>
         fst (destroySession t sessions) = True \<and>
         fst (destroySession t others) = False"
  using assms
  by (auto simp: getSession_def updateSession_def destroySession_def fmlookup_dom_iff)

text \<open>The statement at the session expiring at 100, read at time 101, against the empty registry.\<close>

theorem expired_like_absent_for_get_and_update_witness:
  "fst (getSession 101 ''tok'' (exampleSessions False 100)) = None \<and>
   fst (getSession 101 ''tok'' fmempty) = None \<and>
   fst (destroySession ''tok'' (exampleSessions False 100)) = True \<and>
   fst (destroySession ''tok'' fmempty) = False"
proof -
  have l: "fmlookup (exampleSessions False 100) ''tok'' = Some (exampleStored False 100)"
    by (simp add: exampleSessions_def)
  have e: "expiresAt (data (exampleStored False 100)) < 101"
    by (simp add: exampleStored_def)
  have a: "fmlookup (fmempty :: session_map) ''tok'' = None"
    by simp
  show ?thesis
    using expired_like_absent_for_get_and_update [OF l e a, of "switchDatabaseUpdates ''logs''"]
    by (simp add: getSession_def)
qed

text \<open>
  Claim C7 as written fails for \<open>destroySession\<close>: its result tells the expired record
  from the absent one.
\<close>

theorem destroy_tells_expired_from_absent:
  "fst (destroySession ''tok'' (exampleSessions False 100)) \<noteq> fst (destroySession ''tok'' fmempty) \<and>
   fst (getSession 101 ''tok'' (exampleSessions False 100)) = None"
  by (simp add: destroySession_def getSession_def exampleSessions_def exampleStored_def)

text \<open>
  Claim C10. On a stored session that has not expired, \<open>updateSession\<close> succeeds and the
  stored record takes every field the update carries, \<open>expiresAt\<close> and \<open>readOnly\<close> among
  them; \<open>createdAt\<close>, which the update type leaves out, is kept. The store enforces neither
  the expiry nor the read-only flag. The update the route handler passes,
  \<^verbatim>\<open>{ databaseName }\<close>, changes the database name and keeps both.
\<close>

theorem updateSession_overwrites_all_but_createdAt:
  assumes "fmlookup sessions t = Some s" and "now \<le> expiresAt (data s)"
  shows "fst (updateSession now t u sessions) = True \<and>
         (\<exists>s'. fmlookup (snd (updateSession now t u sessions)) t = Some s' \<and>
            createdAt (data s') = createdAt (data s) \<and>
            expiresAt (data s') = (case upd_expiresAt u of None \<Rightarrow> expiresAt (data s) | Some v \<Rightarrow> v) \<and>
            readOnly (data s') = (case upd_readOnly u of None \<Rightarrow> readOnly (data s) | Some v \<Rightarrow> v) \<and>
            uri (data s') = (case upd_uri u of None \<Rightarrow> uri (data s) | Some v \<Rightarrow> v) \<and>
            databaseName (data s') =
              (case upd_databaseName u of None \<Rightarrow> databaseName (data s) | Some v \<Rightarrow> v) \<and>
            allowedScope (data s') =
              (case upd_allowedScope u of None \<Rightarrow> allowedScope (data s) | Some v \<Rightarrow> v)) \<and>
         (\<exists>s'. fmlookup (snd (updateSession now t (switchDatabaseUpdates n) sessions)) t = Some s' \<and>
            databaseName (data s') = n \<and>
            expiresAt (data s') = expiresAt (data s) \<and>
            readOnly (data s') = readOnly (data s))"
  using assms by (simp add: updateSession_def spread_def switchDatabaseUpdates_def)

text \<open>
  The statement at a read-only session expiring at 100: one update at time 5 clears the
  flag and moves the expiry to 9999999999999.
\<close>

theorem updateSession_overwrites_all_but_createdAt_witness:
  "readOnly (data (exampleStored True 100)) \<and>
   expiresAt (data (exampleStored True 100)) = 100 \<and>
   fst (updateSession 5 ''tok'' exampleOverwrite (exampleSessions True 100)) = True \<and>
   (\<exists>s'. fmlookup (snd (updateSession 5 ''tok'' exampleOverwrite (exampleSessions True 100))) ''tok'' =
           Some s' \<and>
         readOnly (data s') = False \<and> expiresAt (data s') = 9999999999999 \<and>
         createdAt (data s') = 0)"
proof -
  have l: "fmlookup (exampleSessions True 100) ''tok'' = Some (exampleStored True 100)"
    by (simp add: exampleSessions_def)
  have e: "5 \<le> expiresAt (data (exampleStored True 100))"
    by (simp add: exampleStored_def)
  have c: "createdAt (data (exampleStored True 100)) = 0" "readOnly (data (exampleStored True 100))"
    "expiresAt (data (exampleStored True 100)) = 100"
    by (simp_all add: exampleStored_def)
  have u: "upd_expiresAt exampleOverwrite = Some 9999999999999"
    "upd_readOnly exampleOverwrite = Some False"
    by (simp_all add: exampleOverwrite_def)
  show ?thesis
    using updateSession_overwrites_all_but_createdAt [OF l e, of exampleOverwrite] c u
    by auto
qed

section \<open>Properties of the payload sanitizer\<close>




lemma find_append_case:
  "find P (xs @ ys) = (case find P xs of None \<Rightarrow> find P ys | Some x \<Rightarrow> Some x)"
  by (induction xs) auto

lemma blocked_operators_denylisted: "(key \<in> set BLOCKED_OPERATORS) = denylisted key"
  by (auto simp: BLOCKED_OPERATORS_def denylisted_def)

lemma blocked_prefix_systemVariable:
  "find (startsWith key) BLOCKED_OPERATOR_PREFIXES = (if systemVariable key then Some ''$$'' else None)"
  by (simp add: BLOCKED_OPERATOR_PREFIXES_def startsWith_def systemVariable_def numeral_2_eq_2)

lemma offending_under [simp]: "offending (s # p, k) = offending (p, k)"
  by (simp add: offending_def)

text \<open>The two messages of the traversal are the report for the place it was handed.\<close>

lemma operator_message:
  "denylisted key \<Longrightarrow> blockedOperatorMessage key path = reportAt (pathOrRoot path) key"
  by (simp add: blockedOperatorMessage_def reportAt_def quoted_def dq_def)

lemma prefix_message:
  "\<not> denylisted key \<Longrightarrow> blockedPrefixMessage ''$$'' key path = reportAt (pathOrRoot path) key"
  by (simp add: blockedPrefixMessage_def reportAt_def quoted_def dq_def)

lemma own_key_report:
  assumes "offending ([], key)"
  shows "findInObject ((key, v) # kvs) path = Some (reportAt (pathOrRoot path) key)"
  using assms
  by (auto simp: offending_def blocked_operators_denylisted blocked_prefix_systemVariable
      operator_message prefix_message)








lemma find_shift:
  "find offending (map (\<lambda>(p, k). (s # p, k)) occs) =
   map_option (\<lambda>(p, k). (s # p, k)) (find offending occs)"
  by (induction occs) auto

text \<open>Below any path, the traversal returns a message exactly when a key offends.\<close>

lemma traversal_finds:
  "(findBlockedOperator v base = None) = (find offending (keysAt v) = None)"
  "(findInArray xs i base = None) = (find offending (keysAtArray xs i) = None)"
  "(findInObject kvs base = None) = (find offending (keysAtObject kvs) = None)"
proof (induction v base and xs i base and kvs base
    rule: findBlockedOperator_findInArray_findInObject.induct)
  case (9 x xs i path)
  then show ?case
    by (auto simp: find_append_case find_shift split: option.splits)
next
  case (11 key v kvs path)
  show ?case
  proof (cases "offending ([], key)")
    case True
    then show ?thesis
      using own_key_report [OF True, of v kvs path] by simp
  next
    case False
    then have nk: "\<not> denylisted key" "\<not> systemVariable key"
      by (simp_all add: offending_def)
    then show ?thesis
      using 11 False
      by (auto simp: blocked_operators_denylisted blocked_prefix_systemVariable
          find_append_case find_shift split: option.splits)
  qed
qed simp_all











text \<open>
  Below a property named by the empty string the traversal's path loses that name: the
  operator is reported at \<^verbatim>\<open>root\<close>.
\<close>

lemma empty_name_dropped:
  "findBlockedOperator (JObject [([], JObject [(''$where'', JString ''1'')])]) [] =
     Some (''Blocked operator '' @ [CHR 0x22] @ ''$where'' @ [CHR 0x22] @ '' found at root'')"
  by (simp add: BLOCKED_OPERATORS_def BLOCKED_OPERATOR_PREFIXES_def startsWith_def keyPath_def
      blockedOperatorMessage_def pathOrRoot_def dq_def)

lemma clean_find_none: "\<not> list_ex offending occs \<Longrightarrow> find offending occs = None"
  by (induction occs) auto

lemma clean_traversal: "\<not> containsBlocked v \<Longrightarrow> findBlockedOperator v [] = None"
  by (simp add: traversal_finds(1) containsBlocked_def clean_find_none)

lemma sanitizeFilter_again: "sanitizeFilter x = Valid y \<Longrightarrow> sanitizeFilter y = Valid y"
  by (auto simp: sanitizeFilter_def split: if_splits option.splits)

lemma sanitizeUpdate_again: "sanitizeUpdate x = Valid y \<Longrightarrow> sanitizeUpdate y = Valid y"
  by (auto simp: sanitizeUpdate_def split: if_splits option.splits)

text \<open>
  Claim C8, as the code has it. An object payload with no denylisted operator and no key
  with the prefix \<^verbatim>\<open>$$\<close> is returned unchanged by both sanitizers. Sanitizing is idempotent on
  every input \<open>x\<close>, objects or not: sanitizing the payload of a valid result again gives that
  result, and a rejection stays the same rejection. A filter that is \<^verbatim>\<open>null\<close> or
  \<^verbatim>\<open>undefined\<close> comes back as the empty object, not as it was.
\<close>

theorem clean_object_unchanged_and_idempotent:
  assumes "\<not> containsBlocked (JObject kvs)"
  shows "sanitizeFilter (JObject kvs) = Valid (JObject kvs) \<and>
         sanitizeUpdate (JObject kvs) = Valid (JObject kvs) \<and>
         thenSanitize sanitizeFilter (sanitizeFilter x) = sanitizeFilter x \<and>
         thenSanitize sanitizeUpdate (sanitizeUpdate x) = sanitizeUpdate x \<and>
         sanitizeFilter JNull = Valid (JObject []) \<and>
         sanitizeFilter JUndefined = Valid (JObject [])"
proof -
  have "findBlockedOperator (JObject kvs) [] = None"
    using assms by (rule clean_traversal)
  then have a: "sanitizeFilter (JObject kvs) = Valid (JObject kvs)"
    "sanitizeUpdate (JObject kvs) = Valid (JObject kvs)"
    by (simp_all add: sanitizeFilter_def sanitizeUpdate_def)
  have b: "thenSanitize sanitizeFilter (sanitizeFilter x) = sanitizeFilter x"
    by (cases "sanitizeFilter x") (simp_all add: sanitizeFilter_again)
  have c: "thenSanitize sanitizeUpdate (sanitizeUpdate x) = sanitizeUpdate x"
    by (cases "sanitizeUpdate x") (simp_all add: sanitizeUpdate_again)
  have d: "sanitizeFilter JNull = Valid (JObject [])" "sanitizeFilter JUndefined = Valid (JObject [])"
    by (simp_all add: sanitizeFilter_def)
  show ?thesis using a b c d by simp
qed

text \<open>
  The statement at a filter with the harmless operator \<^verbatim>\<open>$gt\<close>, and idempotence at
  \<^verbatim>\<open>null\<close>.
\<close>

theorem clean_object_unchanged_and_idempotent_witness:
  "\<not> containsBlocked cleanPayload \<and>
   sanitizeFilter cleanPayload = Valid cleanPayload \<and>
   sanitizeUpdate cleanPayload = Valid cleanPayload \<and>
   thenSanitize sanitizeFilter (sanitizeFilter JNull) = Valid (JObject [])"
proof -
  have c: "\<not> containsBlocked (JObject [(''age'', JObject [(''$gt'', JNumber 3)]),
      (''tags'', JArray [JString ''a''])])"
    by (simp add: containsBlocked_def offending_def denylisted_def systemVariable_def)
  have n: "sanitizeFilter JNull = Valid (JObject [])"
    by (simp add: sanitizeFilter_def)
  show ?thesis
    using clean_object_unchanged_and_idempotent [OF c, of JNull] c n
    by (simp add: cleanPayload_def)
qed

text \<open>
  Claim C8 as written fails on the inputs it names: \<^verbatim>\<open>null\<close> and a string hold no
  denylisted operator, yet \<open>sanitizeFilter\<close> turns \<^verbatim>\<open>null\<close> into the empty object and rejects
  the string, and \<open>sanitizeUpdate\<close> rejects both.
\<close>

theorem null_and_non_object_not_returned_unchanged:
  "\<not> containsBlocked JNull \<and> sanitizeFilter JNull = Valid (JObject []) \<and>
   sanitizeUpdate JNull = Invalid ''Update object is required'' \<and>
   \<not> containsBlocked (JString ''abc'') \<and>
   sanitizeFilter (JString ''abc'') = Invalid ''Filter must be an object'' \<and>
   sanitizeUpdate (JString ''abc'') = Invalid ''Update must be an object''"
  by (simp add: containsBlocked_def sanitizeFilter_def sanitizeUpdate_def)

text \<open>
  Claim C5, as the code has it. \<open>sanitizeUpdate\<close> is \<open>sanitizeFilter\<close> but for two
  messages: a missing update (\<^verbatim>\<open>null\<close> or \<^verbatim>\<open>undefined\<close>) is the error
  \<^verbatim>\<open>Update object is required\<close> where a missing filter becomes the empty filter, and the
  rejection of a value that is not an object names the update. On every object, the empty
  one included, the two agree: the empty update object is accepted.
\<close>

theorem update_differs_from_filter_on_missing_only:
  "sanitizeUpdate v =
     (if v = JNull \<or> v = JUndefined then Invalid ''Update object is required''
      else if typeof v \<noteq> ''object'' \<or> isArray v then Invalid ''Update must be an object''
      else sanitizeFilter v) \<and>
   sanitizeFilter JNull = Valid (JObject []) \<and>
   sanitizeFilter JUndefined = Valid (JObject []) \<and>
   sanitizeFilter (JObject []) = Valid (JObject []) \<and>
   sanitizeUpdate (JObject []) = Valid (JObject []) \<and>
   sanitizeUpdate (JObject kvs) = sanitizeFilter (JObject kvs)"
  by (simp add: sanitizeFilter_def sanitizeUpdate_def)

text \<open>
  The statement at \<^verbatim>\<open>null\<close>, at an array and at a filter with the operator \<^verbatim>\<open>$gt\<close>.
\<close>

theorem update_differs_from_filter_on_missing_only_witness:
  "sanitizeUpdate JNull = Invalid ''Update object is required'' \<and>
   sanitizeFilter JNull = Valid (JObject []) \<and>
   sanitizeUpdate (JArray []) = Invalid ''Update must be an object'' \<and>
   sanitizeUpdate cleanPayload = sanitizeFilter cleanPayload"
  using update_differs_from_filter_on_missing_only [of JNull "[]"]
    update_differs_from_filter_on_missing_only [of "JArray []" "[]"]
    update_differs_from_filter_on_missing_only [of cleanPayload "[]"]
  by (simp add: cleanPayload_def)

text \<open>
  Claim C5 as written fails at the empty update object \<^verbatim>\<open>{}\<close>: it is not an error.
\<close>

theorem empty_update_accepted:
  "sanitizeUpdate (JObject []) = Valid (JObject [])"
  by (simp add: sanitizeUpdate_def)

section \<open>Properties of the egress validator\<close>

text \<open>
  Claim C1 at the code. The validator takes the URI and nothing else: it has no resolver
  to ask. A host name that is on neither list is accepted as it stands, whatever it
  resolves to, while the addresses it may resolve to, 127.0.0.1 or 10.0.0.5, are rejected
  when they are written in the URI.
\<close>

theorem hostname_accepted_without_resolution:
  "validateUriForSsrf
     (parsesTo ''mongodb+srv://public-host.example.com/db'' ''mongodb+srv:'' ''public-host.example.com'')
     ''mongodb+srv://public-host.example.com/db'' = Allowed \<and>
   validateUriForSsrf (parsesTo ''mongodb://127.0.0.1:27017/db'' ''mongodb:'' ''127.0.0.1'')
     ''mongodb://127.0.0.1:27017/db'' = Rejected ''Connection to internal hosts is not allowed'' \<and>
   validateUriForSsrf (parsesTo ''mongodb://10.0.0.5/db'' ''mongodb:'' ''10.0.0.5'')
     ''mongodb://10.0.0.5/db'' = Rejected ''Connection to private networks is not allowed''"
  by (simp add: validateUriForSsrf_def parsesTo_def toLowerCase_def toLowerChar_def
      BLOCKED_HOSTNAMES_def BLOCKED_IP_PATTERNS_def classB_def startsWith_def)

text \<open>
  Claim C2 at the code. The metadata address 169.254.169.254 is rejected. An address of
  the carrier-grade NAT block 100.64.0.0/10, and one of each documentation block
  192.0.2.0/24, 198.51.100.0/24 and 203.0.113.0/24, is accepted: no pattern covers them.
\<close>

theorem cgnat_and_test_nets_pass:
  "validateUriForSsrf (parsesTo ''mongodb://100.64.0.1:27017/db'' ''mongodb:'' ''100.64.0.1'')
     ''mongodb://100.64.0.1:27017/db'' = Allowed \<and>
   validateUriForSsrf (parsesTo ''mongodb://192.0.2.1/db'' ''mongodb:'' ''192.0.2.1'')
     ''mongodb://192.0.2.1/db'' = Allowed \<and>
   validateUriForSsrf (parsesTo ''mongodb://198.51.100.1/db'' ''mongodb:'' ''198.51.100.1'')
     ''mongodb://198.51.100.1/db'' = Allowed \<and>
   validateUriForSsrf (parsesTo ''mongodb://203.0.113.1/db'' ''mongodb:'' ''203.0.113.1'')
     ''mongodb://203.0.113.1/db'' = Allowed \<and>
   validateUriForSsrf (parsesTo ''mongodb://169.254.169.254/db'' ''mongodb:'' ''169.254.169.254'')
     ''mongodb://169.254.169.254/db'' = Rejected ''Connection to internal hosts is not allowed''"
  by (simp add: validateUriForSsrf_def parsesTo_def toLowerCase_def toLowerChar_def
      BLOCKED_HOSTNAMES_def BLOCKED_IP_PATTERNS_def classB_def startsWith_def)

section \<open>Properties of the connection pool\<close>






















text \<open>
  A call whose ping fails and whose redial fails throws, and every call is finished after
  four segments of its own.
\<close>

lemma failed_redial_throws:
  assumes "entryAt st (hashUri (uri s)) = Some e" and "clock e1 - lastUsed e < CONNECTION_TTL"
    and "\<not> settled p" and "\<not> settled d"
  shows "fst (runCall hashUri [e1, p, d] s AtStart st) = Finished Thrown"
  using assms
  by (auto simp: entryAt_def getConnectionFromSession_def Let_def createConnection_def)

lemma call_finishes:
  "\<exists>r. fst (runCall hashUri [e1, e2, e3, e4] s AtStart st) = Finished r"
  by (simp add: getConnectionFromSession_def Let_def createConnection_def split: option.splits)

section \<open>Properties of the error responses\<close>





text \<open>No handler that takes the pooled client answers when taking it throws.\<close>

lemma acquire_failure_escapes:
  "usesPool r \<Longrightarrow> handlerOnFailure r (AcquireThrew e) = Some (Escaped e)"
  by simp

end
